theory Spec2Isabelle
  imports Complex_Main
begin

section \<open>Exceptions (excecoes.h)\<close>

text \<open>
  Every exception class of \<^verbatim>\<open>excecoes.h\<close> is a constructor; its argument stands for the
  message text passed at the throw site (the texts are Portuguese and partly built with
  \<^verbatim>\<open>to_string\<close>, so each distinct text is a constructor of \<open>mensagem\<close>, carrying the
  numbers that the text prints; accents are dropped in the list below).

  \<^item> \<open>IdItemInvalido\<close>: "ID do item invalido"
  \<^item> \<open>NomeItemVazio\<close>: "Nome do item nao pode ser vazio"
  \<^item> \<open>QuantidadeNegativa\<close>: "Quantidade nao pode ser negativa"
  \<^item> \<open>QuantidadeDeveSerMaiorQueZero\<close>: "Quantidade deve ser maior que zero"
  \<^item> \<open>PrecoNegativo\<close>: "Preco nao pode ser negativo"
  \<^item> \<open>PrecoItemNegativo\<close>: "Preco do item nao pode ser negativo"
  \<^item> \<open>ItemNaoEncontradoNoEstoqueId i\<close>: "Item nao encontrado no estoque (ID: i)"
  \<^item> \<open>ItemNaoEncontradoNoEstoque\<close>: "Item nao encontrado no estoque"
  \<^item> \<open>QuantidadeInsuficiente d s\<close>: "Quantidade insuficiente. Disponivel: d, Solicitado: s"
  \<^item> \<open>ItemNaoEncontradoNoCamarim\<close>: "Item nao encontrado no camarim"
  \<^item> \<open>QuantidadeInsuficienteNoCamarim\<close>: "Quantidade insuficiente no camarim"
  \<^item> \<open>PedidoAtendidoAdicionar\<close>: "Nao e possivel adicionar itens a um pedido ja atendido"
  \<^item> \<open>PedidoAtendidoRemover\<close>: "Nao e possivel remover itens de um pedido ja atendido"
  \<^item> \<open>NomeCamarimVazio\<close>: "Nome do camarim nao pode ser vazio"
  \<^item> \<open>NomeArtistaVazio\<close>: "Nome do artista nao pode ser vazio"
  \<^item> \<open>IdCamarimInvalido\<close>: "ID do camarim invalido" (camarim.cpp)
  \<^item> \<open>IdDeCamarimInvalido\<close>: "ID de camarim invalido" (artista.cpp)
  \<^item> \<open>IdDoCamarimInvalido\<close>: "ID do camarim invalido" (pedido.cpp)
  \<^item> \<open>ItemJaExiste n\<close>: "Item ja existe com este nome: n"
\<close>

datatype mensagem =
    IdItemInvalido
  | NomeItemVazio
  | QuantidadeNegativa
  | QuantidadeDeveSerMaiorQueZero
  | PrecoNegativo
  | PrecoItemNegativo
  | ItemNaoEncontradoNoEstoqueId int
  | ItemNaoEncontradoNoEstoque
  | QuantidadeInsuficiente int int
  | ItemNaoEncontradoNoCamarim
  | QuantidadeInsuficienteNoCamarim
  | PedidoAtendidoAdicionar
  | PedidoAtendidoRemover
  | NomeCamarimVazio
  | NomeArtistaVazio
  | IdCamarimInvalido
  | IdDeCamarimInvalido
  | IdDoCamarimInvalido
  | ItemJaExiste string

datatype excecao =
    ValidacaoException mensagem
  | ArtistaException mensagem
  | ItemException mensagem
  | EstoqueException mensagem
  | EstoqueInsuficienteException mensagem
  | CamarimException mensagem
  | PedidoException mensagem
  | ListaComprasException mensagem

text \<open>
  A member function that may throw returns the object as it is when control leaves the
  function, paired with the outcome: \<open>Inl\<close> the exception thrown, \<open>Inr\<close> the value
  returned (\<open>()\<close> for a \<^verbatim>\<open>void\<close> function).
\<close>

type_synonym 'a resultado = "excecao + 'a"

fun eh_Validacao :: "'a resultado \<Rightarrow> bool" where
  "eh_Validacao (Inl (ValidacaoException m)) = True"
| "eh_Validacao r = False"

text \<open>
  Quantities, identifiers and counters are C++ \<^verbatim>\<open>int\<close>. Signed overflow is undefined
  behaviour in C++, so the model describes the executions in which no \<^verbatim>\<open>int\<close>
  operation overflows and uses mathematical integers. The sums \<^verbatim>\<open>quantidade += ...\<close>
  of the upserts are the only operations that can overflow; compiled code then wraps, and
  a stored quantity can become negative (2147483647 plus 1 is stored as -2147483648).
  Nothing below that is stated about a stored quantity relies on the sums being exact:
  where a statement needs a stored quantity not to be negative, that is a hypothesis of
  the statement.
\<close>

section \<open>Estoque (estoque.h, estoque.cpp)\<close>

record ItemEstoque =
  itemId :: int
  nomeItem :: string
  quantidade :: int

record Estoque =
  itens :: "int \<rightharpoonup> ItemEstoque"

definition Estoque_novo :: Estoque where
  "Estoque_novo = \<lparr>Estoque.itens = Map.empty\<rparr>"

definition Estoque_adicionarItem ::
  "Estoque \<Rightarrow> int \<Rightarrow> string \<Rightarrow> int \<Rightarrow> Estoque \<times> unit resultado" where
  "Estoque_adicionarItem e itemId' nomeItem' quantidade' =
     (if itemId' < 0 then (e, Inl (ValidacaoException IdItemInvalido))
      else if nomeItem' = [] then (e, Inl (ValidacaoException NomeItemVazio))
      else if quantidade' < 0 then (e, Inl (ValidacaoException QuantidadeNegativa))
      else (case Estoque.itens e itemId' of
              Some r \<Rightarrow>
                (e\<lparr>Estoque.itens := (Estoque.itens e)(itemId' \<mapsto>
                     r\<lparr>ItemEstoque.quantidade := ItemEstoque.quantidade r + quantidade'\<rparr>)\<rparr>,
                 Inr ())
            | None \<Rightarrow>
                (e\<lparr>Estoque.itens := (Estoque.itens e)(itemId' \<mapsto>
                     \<lparr>ItemEstoque.itemId = itemId', nomeItem = nomeItem',
                      quantidade = quantidade'\<rparr>)\<rparr>,
                 Inr ())))"

definition Estoque_removerItem ::
  "Estoque \<Rightarrow> int \<Rightarrow> int \<Rightarrow> Estoque \<times> bool resultado" where
  "Estoque_removerItem e itemId' quantidade' =
     (case Estoque.itens e itemId' of
        None \<Rightarrow> (e, Inl (EstoqueException (ItemNaoEncontradoNoEstoqueId itemId')))
      | Some r \<Rightarrow>
          if quantidade' < 0 then (e, Inl (ValidacaoException QuantidadeNegativa))
          else if ItemEstoque.quantidade r < quantidade' then
            (e, Inl (EstoqueInsuficienteException
                       (QuantidadeInsuficiente (ItemEstoque.quantidade r) quantidade')))
          else
            (let r' = r\<lparr>ItemEstoque.quantidade := ItemEstoque.quantidade r - quantidade'\<rparr>;
                 m = (Estoque.itens e)(itemId' \<mapsto> r')
             in (e\<lparr>Estoque.itens :=
                      (if ItemEstoque.quantidade r' = 0 then m(itemId' := None) else m)\<rparr>,
                 Inr True)))"

definition Estoque_atualizarQuantidade ::
  "Estoque \<Rightarrow> int \<Rightarrow> int \<Rightarrow> Estoque \<times> unit resultado" where
  "Estoque_atualizarQuantidade e itemId' novaQuantidade =
     (case Estoque.itens e itemId' of
        None \<Rightarrow> (e, Inl (EstoqueException ItemNaoEncontradoNoEstoque))
      | Some r \<Rightarrow>
          if novaQuantidade < 0 then (e, Inl (ValidacaoException QuantidadeNegativa))
          else
            (let m = (Estoque.itens e)(itemId' \<mapsto>
                        r\<lparr>ItemEstoque.quantidade := novaQuantidade\<rparr>)
             in (e\<lparr>Estoque.itens := (if novaQuantidade = 0 then m(itemId' := None) else m)\<rparr>,
                 Inr ())))"

section \<open>Camarim (camarim.h, camarim.cpp)\<close>

record ItemCamarim =
  itemId :: int
  nomeItem :: string
  quantidade :: int

record Camarim =
  id :: int
  nome :: string
  artistaId :: int
  itens :: "int \<rightharpoonup> ItemCamarim"

definition Camarim_novo :: "int \<Rightarrow> string \<Rightarrow> int \<Rightarrow> Camarim" where
  "Camarim_novo id' nome' artistaId' =
     \<lparr>Camarim.id = id', nome = nome', artistaId = artistaId', itens = Map.empty\<rparr>"

definition Camarim_setId :: "Camarim \<Rightarrow> int \<Rightarrow> Camarim \<times> unit resultado" where
  "Camarim_setId c id' =
     (if id' < 0 then (c, Inl (ValidacaoException IdCamarimInvalido))
      else (c\<lparr>Camarim.id := id'\<rparr>, Inr ()))"

definition Camarim_setNome :: "Camarim \<Rightarrow> string \<Rightarrow> Camarim \<times> unit resultado" where
  "Camarim_setNome c nome' =
     (if nome' = [] then (c, Inl (ValidacaoException NomeCamarimVazio))
      else (c\<lparr>Camarim.nome := nome'\<rparr>, Inr ()))"

definition Camarim_setArtistaId :: "Camarim \<Rightarrow> int \<Rightarrow> Camarim \<times> unit resultado" where
  "Camarim_setArtistaId c artistaId' = (c\<lparr>Camarim.artistaId := artistaId'\<rparr>, Inr ())"

definition Camarim_inserirItem ::
  "Camarim \<Rightarrow> int \<Rightarrow> string \<Rightarrow> int \<Rightarrow> Camarim \<times> unit resultado" where
  "Camarim_inserirItem c itemId' nomeItem' quantidade' =
     (if itemId' < 0 then (c, Inl (ValidacaoException IdItemInvalido))
      else if nomeItem' = [] then (c, Inl (ValidacaoException NomeItemVazio))
      else if quantidade' \<le> 0 then
        (c, Inl (ValidacaoException QuantidadeDeveSerMaiorQueZero))
      else (case Camarim.itens c itemId' of
              Some r \<Rightarrow>
                (c\<lparr>Camarim.itens := (Camarim.itens c)(itemId' \<mapsto>
                     r\<lparr>ItemCamarim.quantidade := ItemCamarim.quantidade r + quantidade'\<rparr>)\<rparr>,
                 Inr ())
            | None \<Rightarrow>
                (c\<lparr>Camarim.itens := (Camarim.itens c)(itemId' \<mapsto>
                     \<lparr>ItemCamarim.itemId = itemId', nomeItem = nomeItem',
                      quantidade = quantidade'\<rparr>)\<rparr>,
                 Inr ())))"

definition Camarim_removerItem ::
  "Camarim \<Rightarrow> int \<Rightarrow> int \<Rightarrow> Camarim \<times> bool resultado" where
  "Camarim_removerItem c itemId' quantidade' =
     (case Camarim.itens c itemId' of
        None \<Rightarrow> (c, Inl (CamarimException ItemNaoEncontradoNoCamarim))
      | Some r \<Rightarrow>
          if quantidade' \<le> 0 then
            (c, Inl (ValidacaoException QuantidadeDeveSerMaiorQueZero))
          else if ItemCamarim.quantidade r < quantidade' then
            (c, Inl (CamarimException QuantidadeInsuficienteNoCamarim))
          else
            (let r' = r\<lparr>ItemCamarim.quantidade := ItemCamarim.quantidade r - quantidade'\<rparr>;
                 m = (Camarim.itens c)(itemId' \<mapsto> r')
             in (c\<lparr>Camarim.itens :=
                      (if ItemCamarim.quantidade r' = 0 then m(itemId' := None) else m)\<rparr>,
                 Inr True)))"

section \<open>Pedido (pedido.h, pedido.cpp)\<close>

record ItemPedido =
  itemId :: int
  nomeItem :: string
  quantidade :: int

record Pedido =
  id :: int
  camarimId :: int
  nomeArtista :: string
  itens :: "int \<rightharpoonup> ItemPedido"
  atendido :: bool

definition Pedido_novo :: "int \<Rightarrow> int \<Rightarrow> string \<Rightarrow> Pedido" where
  "Pedido_novo id' camarimId' nomeArtista' =
     \<lparr>Pedido.id = id', camarimId = camarimId', nomeArtista = nomeArtista',
      itens = Map.empty, atendido = False\<rparr>"

definition Pedido_adicionarItem ::
  "Pedido \<Rightarrow> int \<Rightarrow> string \<Rightarrow> int \<Rightarrow> Pedido \<times> unit resultado" where
  "Pedido_adicionarItem p itemId' nomeItem' quantidade' =
     (if Pedido.atendido p then (p, Inl (PedidoException PedidoAtendidoAdicionar))
      else if itemId' < 0 then (p, Inl (ValidacaoException IdItemInvalido))
      else if nomeItem' = [] then (p, Inl (ValidacaoException NomeItemVazio))
      else if quantidade' \<le> 0 then
        (p, Inl (ValidacaoException QuantidadeDeveSerMaiorQueZero))
      else (case Pedido.itens p itemId' of
              Some r \<Rightarrow>
                (p\<lparr>Pedido.itens := (Pedido.itens p)(itemId' \<mapsto>
                     r\<lparr>ItemPedido.quantidade := ItemPedido.quantidade r + quantidade'\<rparr>)\<rparr>,
                 Inr ())
            | None \<Rightarrow>
                (p\<lparr>Pedido.itens := (Pedido.itens p)(itemId' \<mapsto>
                     \<lparr>ItemPedido.itemId = itemId', nomeItem = nomeItem',
                      quantidade = quantidade'\<rparr>)\<rparr>,
                 Inr ())))"

definition Pedido_removerItem :: "Pedido \<Rightarrow> int \<Rightarrow> Pedido \<times> bool resultado" where
  "Pedido_removerItem p itemId' =
     (if Pedido.atendido p then (p, Inl (PedidoException PedidoAtendidoRemover))
      else (case Pedido.itens p itemId' of
              None \<Rightarrow> (p, Inr False)
            | Some r \<Rightarrow> (p\<lparr>Pedido.itens := (Pedido.itens p)(itemId' := None)\<rparr>, Inr True)))"

definition Pedido_marcarAtendido :: "Pedido \<Rightarrow> Pedido \<times> unit resultado" where
  "Pedido_marcarAtendido p = (p\<lparr>Pedido.atendido := True\<rparr>, Inr ())"

section \<open>ListaCompras (listacompras.h, listacompras.cpp)\<close>

text \<open>
  Prices and subtotals are C++ \<^verbatim>\<open>double\<close>. The model keeps their type \<open>'d\<close> and the
  two \<^verbatim>\<open>double\<close> operations of the code abstract, as parameters of the functions that
  use them: \<open>neg x\<close> is the comparison \<^verbatim>\<open>x < 0\<close> and \<open>mul q x\<close> is the product
  \<^verbatim>\<open>q * x\<close> of an \<^verbatim>\<open>int\<close> (converted to \<^verbatim>\<open>double\<close>) and a \<^verbatim>\<open>double\<close>. What is
  proved therefore holds whatever the rounding of the product is.
\<close>

record 'd ItemCompra =
  itemId :: int
  nomeItem :: string
  quantidade :: int
  preco :: 'd
  subtotal :: 'd

definition ItemCompra_novo ::
  "(int \<Rightarrow> 'd \<Rightarrow> 'd) \<Rightarrow> int \<Rightarrow> string \<Rightarrow> int \<Rightarrow> 'd \<Rightarrow> 'd ItemCompra" where
  "ItemCompra_novo mul id' nome' qtd preco' =
     \<lparr>ItemCompra.itemId = id', nomeItem = nome', quantidade = qtd, preco = preco',
      subtotal = mul qtd preco'\<rparr>"

record 'd ListaCompras =
  id :: int
  descricao :: string
  itens :: "int \<rightharpoonup> 'd ItemCompra"

definition ListaCompras_novo :: "int \<Rightarrow> string \<Rightarrow> 'd ListaCompras" where
  "ListaCompras_novo id' descricao' =
     \<lparr>ListaCompras.id = id', descricao = descricao', itens = Map.empty\<rparr>"

definition ListaCompras_adicionarItem ::
  "('d \<Rightarrow> bool) \<Rightarrow> (int \<Rightarrow> 'd \<Rightarrow> 'd) \<Rightarrow>
   'd ListaCompras \<Rightarrow> int \<Rightarrow> string \<Rightarrow> int \<Rightarrow> 'd \<Rightarrow> 'd ListaCompras \<times> unit resultado" where
  "ListaCompras_adicionarItem neg mul l itemId' nomeItem' quantidade' preco' =
     (if itemId' < 0 then (l, Inl (ValidacaoException IdItemInvalido))
      else if nomeItem' = [] then (l, Inl (ValidacaoException NomeItemVazio))
      else if quantidade' \<le> 0 then
        (l, Inl (ValidacaoException QuantidadeDeveSerMaiorQueZero))
      else if neg preco' then (l, Inl (ValidacaoException PrecoNegativo))
      else (case ListaCompras.itens l itemId' of
              Some r \<Rightarrow>
                (let r1 = r\<lparr>ItemCompra.quantidade := ItemCompra.quantidade r + quantidade'\<rparr>;
                     r2 = r1\<lparr>ItemCompra.subtotal :=
                               mul (ItemCompra.quantidade r1) (ItemCompra.preco r1)\<rparr>
                 in (l\<lparr>ListaCompras.itens := (ListaCompras.itens l)(itemId' \<mapsto> r2)\<rparr>,
                     Inr ()))
            | None \<Rightarrow>
                (l\<lparr>ListaCompras.itens := (ListaCompras.itens l)(itemId' \<mapsto>
                     ItemCompra_novo mul itemId' nomeItem' quantidade' preco')\<rparr>,
                 Inr ())))"

section \<open>GerenciadorItens: the catalog (item.h, item.cpp)\<close>

record 'd Item =
  id :: int
  nome :: string
  preco :: 'd

record 'd GerenciadorItens =
  itens :: "'d Item list"
  proximoId :: int

definition GerenciadorItens_novo :: "'d GerenciadorItens" where
  "GerenciadorItens_novo = \<lparr>GerenciadorItens.itens = [], proximoId = 1\<rparr>"

text \<open>
  The two lookups return a pointer to the first element that matches, or \<^verbatim>\<open>nullptr\<close>:
  \<open>Some\<close> of the element pointed to, or \<open>None\<close>.
\<close>

definition GerenciadorItens_buscarPorId :: "'d GerenciadorItens \<Rightarrow> int \<Rightarrow> 'd Item option" where
  "GerenciadorItens_buscarPorId g id' =
     find (\<lambda>item. Item.id item = id') (GerenciadorItens.itens g)"

definition GerenciadorItens_buscarPorNome ::
  "'d GerenciadorItens \<Rightarrow> string \<Rightarrow> 'd Item option" where
  "GerenciadorItens_buscarPorNome g nome' =
     find (\<lambda>item. Item.nome item = nome') (GerenciadorItens.itens g)"

definition GerenciadorItens_cadastrar ::
  "('d \<Rightarrow> bool) \<Rightarrow> 'd GerenciadorItens \<Rightarrow> string \<Rightarrow> 'd \<Rightarrow>
   'd GerenciadorItens \<times> int resultado" where
  "GerenciadorItens_cadastrar neg g nome' preco' =
     (if nome' = [] then (g, Inl (ValidacaoException NomeItemVazio))
      else if neg preco' then (g, Inl (ValidacaoException PrecoItemNegativo))
      else if GerenciadorItens_buscarPorNome g nome' \<noteq> None then
        (g, Inl (ItemException (ItemJaExiste nome')))
      else
        (g\<lparr>GerenciadorItens.itens := GerenciadorItens.itens g @
               [\<lparr>Item.id = GerenciadorItens.proximoId g, nome = nome', preco = preco'\<rparr>],
           GerenciadorItens.proximoId := GerenciadorItens.proximoId g + 1\<rparr>,
         Inr (GerenciadorItens.proximoId g)))"

text \<open>
  \<^verbatim>\<open>remove_if\<close> keeps, in their order, the elements whose id differs and returns the end
  of the kept prefix; that iterator differs from \<^verbatim>\<open>end()\<close> exactly when some element was
  dropped, and then \<^verbatim>\<open>erase\<close> cuts the vector down to the kept elements.
\<close>

definition GerenciadorItens_remover :: "'d GerenciadorItens \<Rightarrow> int \<Rightarrow> 'd GerenciadorItens \<times> bool" where
  "GerenciadorItens_remover g id' =
     (let mantidos = filter (\<lambda>i. \<not> (Item.id i = id')) (GerenciadorItens.itens g)
      in if length mantidos \<noteq> length (GerenciadorItens.itens g)
         then (g\<lparr>GerenciadorItens.itens := mantidos\<rparr>, True)
         else (g, False))"

section \<open>Entity managers\<close>

subsection \<open>GerenciadorArtistas (pessoa.h, artista.h, artista.cpp)\<close>

record Pessoa =
  id :: int
  nome :: string

record Artista = Pessoa +
  camarimId :: int

record GerenciadorArtistas =
  artistas :: "Artista list"
  proximoId :: int

definition GerenciadorArtistas_novo :: GerenciadorArtistas where
  "GerenciadorArtistas_novo = \<lparr>artistas = [], proximoId = 1\<rparr>"

definition GerenciadorArtistas_cadastrar ::
  "GerenciadorArtistas \<Rightarrow> string \<Rightarrow> int \<Rightarrow> GerenciadorArtistas \<times> int resultado" where
  "GerenciadorArtistas_cadastrar g nome' camarimId' =
     (if nome' = [] then (g, Inl (ValidacaoException NomeArtistaVazio))
      else if camarimId' < 0 then (g, Inl (ValidacaoException IdDeCamarimInvalido))
      else
        (g\<lparr>artistas := artistas g @
               [\<lparr>Pessoa.id = GerenciadorArtistas.proximoId g, nome = nome',
                 camarimId = camarimId'\<rparr>],
           GerenciadorArtistas.proximoId := GerenciadorArtistas.proximoId g + 1\<rparr>,
         Inr (GerenciadorArtistas.proximoId g)))"

subsection \<open>GerenciadorCamarins (camarim.h, camarim.cpp)\<close>

record GerenciadorCamarins =
  camarins :: "Camarim list"
  proximoId :: int

definition GerenciadorCamarins_novo :: GerenciadorCamarins where
  "GerenciadorCamarins_novo = \<lparr>camarins = [], proximoId = 1\<rparr>"

definition GerenciadorCamarins_cadastrar ::
  "GerenciadorCamarins \<Rightarrow> string \<Rightarrow> int \<Rightarrow> GerenciadorCamarins \<times> int resultado" where
  "GerenciadorCamarins_cadastrar g nome' artistaId' =
     (if nome' = [] then (g, Inl (ValidacaoException NomeCamarimVazio))
      else
        (g\<lparr>camarins := camarins g @
               [Camarim_novo (GerenciadorCamarins.proximoId g) nome' artistaId'],
           GerenciadorCamarins.proximoId := GerenciadorCamarins.proximoId g + 1\<rparr>,
         Inr (GerenciadorCamarins.proximoId g)))"

subsection \<open>GerenciadorPedidos (pedido.h, pedido.cpp)\<close>

record GerenciadorPedidos =
  pedidos :: "Pedido list"
  proximoId :: int

definition GerenciadorPedidos_novo :: GerenciadorPedidos where
  "GerenciadorPedidos_novo = \<lparr>pedidos = [], proximoId = 1\<rparr>"

definition GerenciadorPedidos_criar ::
  "GerenciadorPedidos \<Rightarrow> int \<Rightarrow> string \<Rightarrow> GerenciadorPedidos \<times> int resultado" where
  "GerenciadorPedidos_criar g camarimId' nomeArtista' =
     (if camarimId' < 0 then (g, Inl (ValidacaoException IdDoCamarimInvalido))
      else if nomeArtista' = [] then (g, Inl (ValidacaoException NomeArtistaVazio))
      else
        (g\<lparr>pedidos := pedidos g @
               [Pedido_novo (GerenciadorPedidos.proximoId g) camarimId' nomeArtista'],
           GerenciadorPedidos.proximoId := GerenciadorPedidos.proximoId g + 1\<rparr>,
         Inr (GerenciadorPedidos.proximoId g)))"

section \<open>Sequences of calls\<close>

text \<open>
  The interactive shell (\<^verbatim>\<open>main.cpp\<close>) wraps every mutating call in a handler that
  prints the exception and goes on with the same object. A sequence of calls is
  therefore a fold that keeps the object each call leaves behind, whether the call
  returned or threw.
\<close>

datatype op_Estoque =
    AdicionarItem int string int
  | RemoverItem int int
  | AtualizarQuantidade int int

fun Estoque_aplicar :: "Estoque \<Rightarrow> op_Estoque \<Rightarrow> Estoque" where
  "Estoque_aplicar e (AdicionarItem i n q) = fst (Estoque_adicionarItem e i n q)"
| "Estoque_aplicar e (RemoverItem i q) = fst (Estoque_removerItem e i q)"
| "Estoque_aplicar e (AtualizarQuantidade i q) = fst (Estoque_atualizarQuantidade e i q)"

definition Estoque_executar :: "op_Estoque list \<Rightarrow> Estoque" where
  "Estoque_executar ops = foldl Estoque_aplicar Estoque_novo ops"

datatype op_Camarim =
    SetId int
  | SetNome string
  | SetArtistaId int
  | InserirItem int string int
  | RetirarItem int int

fun Camarim_aplicar :: "Camarim \<Rightarrow> op_Camarim \<Rightarrow> Camarim" where
  "Camarim_aplicar c (SetId k) = fst (Camarim_setId c k)"
| "Camarim_aplicar c (SetNome n) = fst (Camarim_setNome c n)"
| "Camarim_aplicar c (SetArtistaId a) = fst (Camarim_setArtistaId c a)"
| "Camarim_aplicar c (InserirItem i n q) = fst (Camarim_inserirItem c i n q)"
| "Camarim_aplicar c (RetirarItem i q) = fst (Camarim_removerItem c i q)"

definition Camarim_executar :: "Camarim \<Rightarrow> op_Camarim list \<Rightarrow> Camarim" where
  "Camarim_executar c ops = foldl Camarim_aplicar c ops"

datatype op_Pedido =
    AdicionarLinha int string int
  | RemoverLinha int
  | MarcarAtendido

fun Pedido_aplicar :: "Pedido \<Rightarrow> op_Pedido \<Rightarrow> Pedido" where
  "Pedido_aplicar p (AdicionarLinha i n q) = fst (Pedido_adicionarItem p i n q)"
| "Pedido_aplicar p (RemoverLinha i) = fst (Pedido_removerItem p i)"
| "Pedido_aplicar p MarcarAtendido = fst (Pedido_marcarAtendido p)"

definition Pedido_executar :: "Pedido \<Rightarrow> op_Pedido list \<Rightarrow> Pedido" where
  "Pedido_executar p ops = foldl Pedido_aplicar p ops"

section \<open>Concrete objects used in the evaluations\<close>

text \<open>
  The exact reading of the two \<^verbatim>\<open>double\<close> operations. On the prices and quantities of
  the evaluations below (small integers and 12.5, all exactly representable, with exactly
  representable products) the IEEE operations of the code return these exact values.
\<close>

definition exato_neg :: "real \<Rightarrow> bool" where
  "exato_neg x = (x < 0)"

definition exato_mul :: "int \<Rightarrow> real \<Rightarrow> real" where
  "exato_mul q x = real_of_int q * x"

definition lista_semanal :: "real ListaCompras" where
  "lista_semanal =
     fst (ListaCompras_adicionarItem exato_neg exato_mul
            (ListaCompras_novo 1 ''Semanal'') 1 ''Sabonete'' 3 2)"

definition estoque_exemplo :: Estoque where
  "estoque_exemplo = Estoque_executar [AdicionarItem 1 ''Toalha'' 10]"

definition camarim_exemplo :: Camarim where
  "camarim_exemplo =
     Camarim_executar (Camarim_novo 1 ''Camarim A'' 0) [InserirItem 1 ''Toalha'' 5]"

definition pedido_pendente :: Pedido where
  "pedido_pendente =
     Pedido_executar (Pedido_novo 1 1 ''Ana'')
       [AdicionarLinha 1 ''Toalha'' 2, AdicionarLinha 2 ''Agua'' 6]"

definition pedido_atendido :: Pedido where
  "pedido_atendido = Pedido_executar pedido_pendente [MarcarAtendido]"

definition catalogo_exemplo :: "real GerenciadorItens" where
  "catalogo_exemplo =
     fst (GerenciadorItens_cadastrar exato_neg GerenciadorItens_novo ''Toalha'' (25 / 2))"

section \<open>Evaluation of the concrete objects\<close>

lemma lista_semanal_itens:
  "ListaCompras.itens lista_semanal 1 =
     Some \<lparr>ItemCompra.itemId = 1, nomeItem = ''Sabonete'', quantidade = 3, preco = 2,
           subtotal = 6\<rparr>"
  by (simp add: lista_semanal_def ListaCompras_adicionarItem_def ListaCompras_novo_def
      ItemCompra_novo_def exato_neg_def exato_mul_def)

lemma estoque_exemplo_itens:
  "Estoque.itens estoque_exemplo 1 =
     Some \<lparr>ItemEstoque.itemId = 1, nomeItem = ''Toalha'', quantidade = 10\<rparr>"
  by (simp add: estoque_exemplo_def Estoque_executar_def Estoque_adicionarItem_def
      Estoque_novo_def)

lemma camarim_exemplo_itens:
  "Camarim.itens camarim_exemplo 1 =
     Some \<lparr>ItemCamarim.itemId = 1, nomeItem = ''Toalha'', quantidade = 5\<rparr>"
  by (simp add: camarim_exemplo_def Camarim_executar_def Camarim_inserirItem_def
      Camarim_novo_def)

lemma pedido_pendente_eq:
  "pedido_pendente =
     \<lparr>Pedido.id = 1, camarimId = 1, nomeArtista = ''Ana'',
      itens = [1 \<mapsto> \<lparr>ItemPedido.itemId = 1, nomeItem = ''Toalha'', quantidade = 2\<rparr>,
               2 \<mapsto> \<lparr>ItemPedido.itemId = 2, nomeItem = ''Agua'', quantidade = 6\<rparr>],
      atendido = False\<rparr>"
  by (simp add: pedido_pendente_def Pedido_executar_def Pedido_novo_def
      Pedido_adicionarItem_def)

lemma pedido_atendido_eq:
  "pedido_atendido = pedido_pendente\<lparr>Pedido.atendido := True\<rparr>"
  by (simp add: pedido_atendido_def Pedido_executar_def Pedido_marcarAtendido_def)

lemma catalogo_exemplo_cadastrar:
  "GerenciadorItens_cadastrar exato_neg GerenciadorItens_novo ''Toalha'' (25 / 2) =
     (catalogo_exemplo, Inr 1)"
  by (simp add: catalogo_exemplo_def GerenciadorItens_cadastrar_def GerenciadorItens_novo_def
      GerenciadorItens_buscarPorNome_def exato_neg_def)

lemma catalogo_exemplo_eq:
  "catalogo_exemplo =
     \<lparr>GerenciadorItens.itens = [\<lparr>Item.id = 1, nome = ''Toalha'', preco = 25 / 2\<rparr>],
      proximoId = 2\<rparr>"
  by (simp add: catalogo_exemplo_def GerenciadorItens_cadastrar_def GerenciadorItens_novo_def
      GerenciadorItens_buscarPorNome_def exato_neg_def)

lemma catalogo_exemplo_remover:
  "GerenciadorItens_remover catalogo_exemplo 1 =
     (\<lparr>GerenciadorItens.itens = [], proximoId = 2\<rparr>, True)"
  by (simp add: catalogo_exemplo_eq GerenciadorItens_remover_def)

section \<open>Quantities stored after a sequence of calls without overflow\<close>

text \<open>
  The lemmas of this section are about sequences of calls in which no \<^verbatim>\<open>int\<close> sum
  overflows (the sums of the model are exact). No statement about a claim rests on them.

  Every quantity in the stock is then non-negative: \<^verbatim>\<open>adicionarItem\<close> and
  \<^verbatim>\<open>atualizarQuantidade\<close> refuse negative arguments and \<^verbatim>\<open>removerItem\<close> refuses to
  take more than is stored.
\<close>

lemma Estoque_aplicar_nao_negativo:
  assumes "\<forall>i r. Estoque.itens e i = Some r \<longrightarrow> 0 \<le> ItemEstoque.quantidade r"
  shows "\<forall>i r. Estoque.itens (Estoque_aplicar e x) i = Some r \<longrightarrow>
           0 \<le> ItemEstoque.quantidade r"
  using assms
  by (cases x)
     (auto simp: Estoque_adicionarItem_def Estoque_removerItem_def
        Estoque_atualizarQuantidade_def Let_def split: option.splits if_splits)

lemma Estoque_executar_snoc:
  "Estoque_executar (xs @ [x]) = Estoque_aplicar (Estoque_executar xs) x"
  by (simp add: Estoque_executar_def)

lemma Estoque_executar_nao_negativo:
  "Estoque.itens (Estoque_executar ops) i = Some r \<Longrightarrow> 0 \<le> ItemEstoque.quantidade r"
proof -
  have "\<forall>i r. Estoque.itens (Estoque_executar ops) i = Some r \<longrightarrow>
          0 \<le> ItemEstoque.quantidade r"
  proof (induction ops rule: rev_induct)
    case Nil
    show ?case by (simp add: Estoque_executar_def Estoque_novo_def)
  next
    case (snoc x xs)
    from Estoque_aplicar_nao_negativo [OF snoc.IH] show ?case
      by (simp only: Estoque_executar_snoc)
  qed
  then show "Estoque.itens (Estoque_executar ops) i = Some r \<Longrightarrow>
      0 \<le> ItemEstoque.quantidade r"
    by blast
qed

text \<open>
  A stock call other than \<^verbatim>\<open>adicionarItem\<close> with quantity 0 keeps every stored
  quantity positive, so such calls alone never leave a record with quantity 0.
\<close>

lemma Estoque_aplicar_positivo:
  assumes "\<forall>i r. Estoque.itens e i = Some r \<longrightarrow> 0 < ItemEstoque.quantidade r"
    and "\<forall>i n. x \<noteq> AdicionarItem i n 0"
  shows "\<forall>i r. Estoque.itens (Estoque_aplicar e x) i = Some r \<longrightarrow>
           0 < ItemEstoque.quantidade r"
  using assms
  by (cases x)
     (fastforce simp: Estoque_adicionarItem_def Estoque_removerItem_def
        Estoque_atualizarQuantidade_def Let_def split: option.splits if_splits)+

lemma Estoque_executar_positivo:
  assumes "\<forall>x \<in> set ops. \<forall>i n. x \<noteq> AdicionarItem i n 0"
  shows "\<forall>i r. Estoque.itens (Estoque_executar ops) i = Some r \<longrightarrow>
           0 < ItemEstoque.quantidade r"
  using assms
proof (induction ops rule: rev_induct)
  case Nil
  show ?case by (simp add: Estoque_executar_def Estoque_novo_def)
next
  case (snoc x xs)
  then have ih: "\<forall>i r. Estoque.itens (Estoque_executar xs) i = Some r \<longrightarrow>
      0 < ItemEstoque.quantidade r"
    and x: "\<forall>i n. x \<noteq> AdicionarItem i n 0"
    by simp_all
  from Estoque_aplicar_positivo [OF ih x] show ?case
    by (simp only: Estoque_executar_snoc)
qed

text \<open>
  Every quantity in a dressing room is then positive: \<^verbatim>\<open>inserirItem\<close> refuses quantities
  that are not positive and \<^verbatim>\<open>removerItem\<close> erases the record that reaches 0.
\<close>

lemma Camarim_aplicar_positivo:
  assumes "\<forall>i r. Camarim.itens c i = Some r \<longrightarrow> 0 < ItemCamarim.quantidade r"
  shows "\<forall>i r. Camarim.itens (Camarim_aplicar c x) i = Some r \<longrightarrow>
           0 < ItemCamarim.quantidade r"
  using assms
  by (cases x)
     (fastforce simp: Camarim_setId_def Camarim_setNome_def Camarim_setArtistaId_def
        Camarim_inserirItem_def Camarim_removerItem_def Let_def
        split: option.splits if_splits)+

lemma Camarim_executar_snoc:
  "Camarim_executar c (xs @ [x]) = Camarim_aplicar (Camarim_executar c xs) x"
  by (simp add: Camarim_executar_def)

lemma Camarim_executar_positivo:
  "Camarim.itens (Camarim_executar (Camarim_novo a b c) ops) i = Some r \<Longrightarrow>
     0 < ItemCamarim.quantidade r"
proof -
  have "\<forall>i r. Camarim.itens (Camarim_executar (Camarim_novo a b c) ops) i = Some r \<longrightarrow>
          0 < ItemCamarim.quantidade r"
  proof (induction ops rule: rev_induct)
    case Nil
    show ?case by (simp add: Camarim_executar_def Camarim_novo_def)
  next
    case (snoc x xs)
    from Camarim_aplicar_positivo [OF snoc.IH] show ?case
      by (simp only: Camarim_executar_snoc)
  qed
  then show "Camarim.itens (Camarim_executar (Camarim_novo a b c) ops) i = Some r \<Longrightarrow>
      0 < ItemCamarim.quantidade r"
    by blast
qed

section \<open>A fulfilled order\<close>

lemma Pedido_aplicar_atendido: "Pedido.atendido p \<Longrightarrow> Pedido_aplicar p x = p"
  by (cases x)
     (simp_all add: Pedido_adicionarItem_def Pedido_removerItem_def Pedido_marcarAtendido_def)

lemma Pedido_executar_atendido: "Pedido.atendido p \<Longrightarrow> Pedido_executar p ops = p"
  unfolding Pedido_executar_def
  by (induction ops) (simp_all add: Pedido_aplicar_atendido)

section \<open>Linear search\<close>

lemma find_snoc_novo: "find P xs = None \<Longrightarrow> P x \<Longrightarrow> find P (xs @ [x]) = Some x"
  by (induction xs) (auto split: if_splits)

lemma find_filter_neg: "find P (filter (\<lambda>x. \<not> P x) xs) = None"
  by (simp add: find_None_iff)

section \<open>The claims\<close>

subsection \<open>C1: the subtotal of a shopping-list record that already exists\<close>

text \<open>
  C1 as stated fails. The list holds item 1 with quantity 3 and unit price 2
  (subtotal 6). A valid \<^verbatim>\<open>adicionarItem(1, "Sabonete", 2, 3.0)\<close> makes the quantity 5 and
  the subtotal 10, which is 5 times the stored price 2, and not 15, which is 5 times the
  price 3 supplied in the call.
\<close>

theorem ListaCompras_adicionarItem_preco_do_argumento_counterexample:
  "ListaCompras.itens lista_semanal 1 =
     Some \<lparr>ItemCompra.itemId = 1, nomeItem = ''Sabonete'', quantidade = 3, preco = 2,
           subtotal = 6\<rparr>
   \<and> ListaCompras_adicionarItem exato_neg exato_mul lista_semanal 1 ''Sabonete'' 2 3 =
       (lista_semanal\<lparr>ListaCompras.itens := (ListaCompras.itens lista_semanal)(1 \<mapsto>
          \<lparr>ItemCompra.itemId = 1, nomeItem = ''Sabonete'', quantidade = 5, preco = 2,
           subtotal = 10\<rparr>)\<rparr>,
        Inr ())
   \<and> exato_mul (3 + 2) 3 \<noteq> 10"
  by (simp add: lista_semanal_itens ListaCompras_adicionarItem_def exato_neg_def exato_mul_def)

text \<open>
  C1 (amended): for every shopping list and every itemId already present in it, a valid
  \<^verbatim>\<open>adicionarItem(itemId, name, quantity, unitPrice)\<close> call (itemId not negative, name not
  empty, quantity positive, price not negative) returns normally, adds quantity to the
  stored quantity and recomputes the subtotal as the new total quantity multiplied by
  the unit price already stored in the record; nothing else of the record or of the list
  changes, so the price argument of the call is checked and then not used.
\<close>

theorem ListaCompras_adicionarItem_existente:
  assumes "ListaCompras.itens l i = Some r"
    and "0 \<le> i" and "n \<noteq> []" and "0 < q" and "\<not> neg p"
  shows "ListaCompras_adicionarItem neg mul l i n q p =
           (l\<lparr>ListaCompras.itens := (ListaCompras.itens l)(i \<mapsto>
                r\<lparr>ItemCompra.quantidade := ItemCompra.quantidade r + q,
                  ItemCompra.subtotal :=
                    mul (ItemCompra.quantidade r + q) (ItemCompra.preco r)\<rparr>)\<rparr>,
            Inr ())"
  using assms by (simp add: ListaCompras_adicionarItem_def)

theorem ListaCompras_adicionarItem_existente_witness:
  "ListaCompras_adicionarItem exato_neg exato_mul lista_semanal 1 ''Sabonete'' 2 3 =
     (lista_semanal\<lparr>ListaCompras.itens := (ListaCompras.itens lista_semanal)(1 \<mapsto>
        \<lparr>ItemCompra.itemId = 1, nomeItem = ''Sabonete'', quantidade = 5, preco = 2,
         subtotal = 10\<rparr>)\<rparr>,
      Inr ())"
  using ListaCompras_adicionarItem_existente
    [of lista_semanal 1 _ "''Sabonete''" 2 exato_neg 3 exato_mul, OF lista_semanal_itens]
  by (simp add: exato_neg_def exato_mul_def)

subsection \<open>C2: no record with quantity 0 in the stock or in a dressing room\<close>

text \<open>
  C2: after any sequence of calls no record with quantity 0 is in the ledger, in
  particular after \<^verbatim>\<open>adicionarItem\<close> with quantity 0 for an itemId not yet in the stock.
  The code breaks this at that very call: on the empty stock,
  \<^verbatim>\<open>adicionarItem(1, "Toalha", 0)\<close> returns normally and leaves a record with quantity 0,
  where \<^verbatim>\<open>removerItem\<close> and \<^verbatim>\<open>atualizarQuantidade\<close> erase the record that reaches 0.
\<close>

theorem Estoque_adicionarItem_zero_fica_no_estoque:
  "Estoque_adicionarItem Estoque_novo 1 ''Toalha'' 0 =
     (\<lparr>Estoque.itens =
         [1 \<mapsto> \<lparr>ItemEstoque.itemId = 1, nomeItem = ''Toalha'', quantidade = 0\<rparr>]\<rparr>,
      Inr ())"
  by (simp add: Estoque_adicionarItem_def Estoque_novo_def)

subsection \<open>C3: the create operations that take a foreign-key id\<close>

text \<open>
  C3 as stated fails for the dressing rooms: \<^verbatim>\<open>GerenciadorCamarins::cadastrar\<close> with
  artistaId \<open>-1\<close> on a new manager returns id 1 and appends the dressing room.
\<close>

theorem GerenciadorCamarins_cadastrar_artistaId_negativo_counterexample:
  "GerenciadorCamarins_cadastrar GerenciadorCamarins_novo ''Camarim A'' (- 1) =
     (\<lparr>camarins = [Camarim_novo 1 ''Camarim A'' (- 1)], proximoId = 2\<rparr>, Inr 1)"
  by (simp add: GerenciadorCamarins_cadastrar_def GerenciadorCamarins_novo_def)

text \<open>
  C3 (amended): performer \<^verbatim>\<open>cadastrar\<close> and order \<^verbatim>\<open>criar\<close> called with a negative
  camarimId raise a Validation failure and append no entity. Dressing-room
  \<^verbatim>\<open>cadastrar\<close> does not check artistaId: with a non-empty name it assigns the current
  nextId, appends the new dressing room with the artistaId it was given, increments the
  counter and returns the assigned id. With a non-empty name and a non-negative
  camarimId, performer \<^verbatim>\<open>cadastrar\<close> and order \<^verbatim>\<open>criar\<close> assign the current nextId,
  append the new entity, increment the counter and return the assigned id.
\<close>

theorem criar_com_chave_estrangeira:
  "(c < 0 \<longrightarrow>
      fst (GerenciadorArtistas_cadastrar ga m c) = ga \<and>
      eh_Validacao (snd (GerenciadorArtistas_cadastrar ga m c)) \<and>
      fst (GerenciadorPedidos_criar gp c m) = gp \<and>
      eh_Validacao (snd (GerenciadorPedidos_criar gp c m)))
   \<and> (n \<noteq> [] \<longrightarrow>
      GerenciadorCamarins_cadastrar gc n a =
        (gc\<lparr>camarins := camarins gc @ [Camarim_novo (GerenciadorCamarins.proximoId gc) n a],
            GerenciadorCamarins.proximoId := GerenciadorCamarins.proximoId gc + 1\<rparr>,
         Inr (GerenciadorCamarins.proximoId gc)))
   \<and> (n \<noteq> [] \<and> 0 \<le> d \<longrightarrow>
      GerenciadorArtistas_cadastrar ga n d =
        (ga\<lparr>artistas := artistas ga @
              [\<lparr>Pessoa.id = GerenciadorArtistas.proximoId ga, nome = n, camarimId = d\<rparr>],
            GerenciadorArtistas.proximoId := GerenciadorArtistas.proximoId ga + 1\<rparr>,
         Inr (GerenciadorArtistas.proximoId ga)) \<and>
      GerenciadorPedidos_criar gp d n =
        (gp\<lparr>pedidos := pedidos gp @ [Pedido_novo (GerenciadorPedidos.proximoId gp) d n],
            GerenciadorPedidos.proximoId := GerenciadorPedidos.proximoId gp + 1\<rparr>,
         Inr (GerenciadorPedidos.proximoId gp)))"
  by (simp add: GerenciadorArtistas_cadastrar_def GerenciadorPedidos_criar_def
      GerenciadorCamarins_cadastrar_def)

theorem criar_com_chave_estrangeira_witness:
  "fst (GerenciadorArtistas_cadastrar GerenciadorArtistas_novo ''Ana'' (- 1)) =
     GerenciadorArtistas_novo
   \<and> eh_Validacao (snd (GerenciadorArtistas_cadastrar GerenciadorArtistas_novo ''Ana'' (- 1)))
   \<and> fst (GerenciadorPedidos_criar GerenciadorPedidos_novo (- 1) ''Ana'') =
       GerenciadorPedidos_novo
   \<and> eh_Validacao (snd (GerenciadorPedidos_criar GerenciadorPedidos_novo (- 1) ''Ana''))
   \<and> GerenciadorCamarins_cadastrar GerenciadorCamarins_novo ''Ana'' (- 7) =
       (\<lparr>camarins = [Camarim_novo 1 ''Ana'' (- 7)], proximoId = 2\<rparr>, Inr 1)
   \<and> GerenciadorArtistas_cadastrar GerenciadorArtistas_novo ''Ana'' 2 =
       (\<lparr>artistas = [\<lparr>Pessoa.id = 1, nome = ''Ana'', camarimId = 2\<rparr>], proximoId = 2\<rparr>,
        Inr 1)
   \<and> GerenciadorPedidos_criar GerenciadorPedidos_novo 2 ''Ana'' =
       (\<lparr>pedidos = [Pedido_novo 1 2 ''Ana''], proximoId = 2\<rparr>, Inr 1)"
  using criar_com_chave_estrangeira
    [of "- 1" GerenciadorArtistas_novo "''Ana''" GerenciadorPedidos_novo "''Ana''"
        GerenciadorCamarins_novo "- 7" 2]
  by (simp add: GerenciadorArtistas_novo_def GerenciadorPedidos_novo_def
      GerenciadorCamarins_novo_def)

subsection \<open>C4: the Validation failure of a withdrawal\<close>

text \<open>
  C4 as stated fails for the dressing room: with item 1 stored with quantity 5,
  \<^verbatim>\<open>Camarim::removerItem(1, 0)\<close> raises the Validation failure "Quantidade deve ser maior
  que zero", although the quantity 0 is not negative.
\<close>

theorem Camarim_removerItem_zero_counterexample:
  "Camarim.itens camarim_exemplo 1 =
     Some \<lparr>ItemCamarim.itemId = 1, nomeItem = ''Toalha'', quantidade = 5\<rparr>
   \<and> Camarim_removerItem camarim_exemplo 1 0 =
       (camarim_exemplo, Inl (ValidacaoException QuantidadeDeveSerMaiorQueZero))"
  by (simp add: camarim_exemplo_itens Camarim_removerItem_def)

text \<open>
  C4 (amended): when the item is present and the stored quantity is sufficient,
  \<^verbatim>\<open>Estoque::removerItem\<close> raises a Validation failure if and only if the requested
  quantity is negative, and \<^verbatim>\<open>Camarim::removerItem\<close> raises a Validation failure if
  and only if the requested quantity is negative or zero; otherwise the call returns
  true. In particular a withdrawal with quantity 0 does not fail on the stock and fails
  with Validation on a dressing room.
\<close>

theorem removerItem_validacao:
  "(Estoque.itens e i = Some r \<and> q \<le> ItemEstoque.quantidade r \<longrightarrow>
      (eh_Validacao (snd (Estoque_removerItem e i q)) \<longleftrightarrow> q < 0) \<and>
      (\<not> q < 0 \<longrightarrow> snd (Estoque_removerItem e i q) = Inr True))
   \<and> (Camarim.itens c j = Some s \<and> k \<le> ItemCamarim.quantidade s \<longrightarrow>
      (eh_Validacao (snd (Camarim_removerItem c j k)) \<longleftrightarrow> k \<le> 0) \<and>
      (\<not> k \<le> 0 \<longrightarrow> snd (Camarim_removerItem c j k) = Inr True))"
  by (simp add: Estoque_removerItem_def Camarim_removerItem_def Let_def)

theorem removerItem_validacao_witness:
  "\<not> eh_Validacao (snd (Estoque_removerItem estoque_exemplo 1 0))
   \<and> snd (Estoque_removerItem estoque_exemplo 1 0) = Inr True
   \<and> \<not> eh_Validacao (snd (Camarim_removerItem camarim_exemplo 1 2))
   \<and> snd (Camarim_removerItem camarim_exemplo 1 2) = Inr True"
  using removerItem_validacao
    [of estoque_exemplo 1 "\<lparr>ItemEstoque.itemId = 1, nomeItem = ''Toalha'', quantidade = 10\<rparr>" 0
        camarim_exemplo 1 "\<lparr>ItemCamarim.itemId = 1, nomeItem = ''Toalha'', quantidade = 5\<rparr>" 2]
    estoque_exemplo_itens camarim_exemplo_itens
  by simp

subsection \<open>C5: withdrawing more than is stored\<close>

text \<open>
  C5: for every stock and every dressing room, if the item is present with a stored
  quantity that is not negative (as the data model has it) and the requested quantity
  exceeds the stored quantity, then \<^verbatim>\<open>removerItem\<close> raises the insufficient-kind failure
  (EstoqueInsuficienteException for the stock, the CamarimException "Quantidade
  insuficiente no camarim" for the dressing room) and leaves the object unchanged.
\<close>

theorem removerItem_insuficiente:
  "(Estoque.itens e i = Some r \<and> 0 \<le> ItemEstoque.quantidade r \<and>
    ItemEstoque.quantidade r < q \<longrightarrow>
      Estoque_removerItem e i q =
        (e, Inl (EstoqueInsuficienteException
                   (QuantidadeInsuficiente (ItemEstoque.quantidade r) q))))
   \<and> (Camarim.itens c j = Some s \<and> 0 \<le> ItemCamarim.quantidade s \<and>
       ItemCamarim.quantidade s < k \<longrightarrow>
      Camarim_removerItem c j k = (c, Inl (CamarimException QuantidadeInsuficienteNoCamarim)))"
proof (intro conjI impI)
  assume h: "Estoque.itens e i = Some r \<and> 0 \<le> ItemEstoque.quantidade r \<and>
    ItemEstoque.quantidade r < q"
  then have "\<not> q < 0"
    by simp
  with h show "Estoque_removerItem e i q =
        (e, Inl (EstoqueInsuficienteException
                   (QuantidadeInsuficiente (ItemEstoque.quantidade r) q)))"
    by (simp add: Estoque_removerItem_def)
next
  assume h: "Camarim.itens c j = Some s \<and> 0 \<le> ItemCamarim.quantidade s \<and>
       ItemCamarim.quantidade s < k"
  then have "\<not> k \<le> 0"
    by simp
  with h show "Camarim_removerItem c j k =
      (c, Inl (CamarimException QuantidadeInsuficienteNoCamarim))"
    by (simp add: Camarim_removerItem_def)
qed

theorem removerItem_insuficiente_witness:
  "Estoque_removerItem estoque_exemplo 1 11 =
     (estoque_exemplo, Inl (EstoqueInsuficienteException (QuantidadeInsuficiente 10 11)))
   \<and> Camarim_removerItem camarim_exemplo 1 6 =
     (camarim_exemplo, Inl (CamarimException QuantidadeInsuficienteNoCamarim))"
  using removerItem_insuficiente
    [of estoque_exemplo 1
        "\<lparr>ItemEstoque.itemId = 1, nomeItem = ''Toalha'', quantidade = 10\<rparr>" 11
        camarim_exemplo 1
        "\<lparr>ItemCamarim.itemId = 1, nomeItem = ''Toalha'', quantidade = 5\<rparr>" 6]
    estoque_exemplo_itens camarim_exemplo_itens
  by simp

subsection \<open>C6: withdrawing exactly what is stored\<close>

text \<open>
  C6: for every item present in the stock with a stored quantity that is not negative,
  and for every item present in a dressing room with a stored quantity that is positive
  (a dressing room stores no quantity 0), withdrawing exactly the stored quantity
  returns true, and afterwards the ledger has no record for that itemId.
\<close>

theorem removerItem_tudo:
  "(Estoque.itens e i = Some r \<and> 0 \<le> ItemEstoque.quantidade r \<longrightarrow>
      snd (Estoque_removerItem e i (ItemEstoque.quantidade r)) = Inr True \<and>
      Estoque.itens (fst (Estoque_removerItem e i (ItemEstoque.quantidade r))) i = None)
   \<and> (Camarim.itens c j = Some s \<and> 0 < ItemCamarim.quantidade s \<longrightarrow>
      snd (Camarim_removerItem c j (ItemCamarim.quantidade s)) = Inr True \<and>
      Camarim.itens (fst (Camarim_removerItem c j (ItemCamarim.quantidade s))) j = None)"
proof (intro conjI impI)
  assume h: "Estoque.itens e i = Some r \<and> 0 \<le> ItemEstoque.quantidade r"
  then show "snd (Estoque_removerItem e i (ItemEstoque.quantidade r)) = Inr True"
    by (simp add: Estoque_removerItem_def)
  from h show
    "Estoque.itens (fst (Estoque_removerItem e i (ItemEstoque.quantidade r))) i = None"
    by (simp add: Estoque_removerItem_def)
next
  assume h: "Camarim.itens c j = Some s \<and> 0 < ItemCamarim.quantidade s"
  then show "snd (Camarim_removerItem c j (ItemCamarim.quantidade s)) = Inr True"
    by (simp add: Camarim_removerItem_def)
  from h show
    "Camarim.itens (fst (Camarim_removerItem c j (ItemCamarim.quantidade s))) j = None"
    by (simp add: Camarim_removerItem_def)
qed

theorem removerItem_tudo_witness:
  "snd (Estoque_removerItem estoque_exemplo 1 10) = Inr True
   \<and> Estoque.itens (fst (Estoque_removerItem estoque_exemplo 1 10)) 1 = None
   \<and> snd (Camarim_removerItem camarim_exemplo 1 5) = Inr True
   \<and> Camarim.itens (fst (Camarim_removerItem camarim_exemplo 1 5)) 1 = None"
  using removerItem_tudo
    [of estoque_exemplo 1
        "\<lparr>ItemEstoque.itemId = 1, nomeItem = ''Toalha'', quantidade = 10\<rparr>"
        camarim_exemplo 1
        "\<lparr>ItemCamarim.itemId = 1, nomeItem = ''Toalha'', quantidade = 5\<rparr>"]
    estoque_exemplo_itens camarim_exemplo_itens
  by simp

subsection \<open>C7: a fulfilled order is immutable\<close>

text \<open>
  C7: once the flag \<^verbatim>\<open>atendido\<close> of an order is true, every later
  \<^verbatim>\<open>adicionarItem\<close> or \<^verbatim>\<open>removerItem\<close> call on that order, after any number of
  \<^verbatim>\<open>adicionarItem\<close>, \<^verbatim>\<open>removerItem\<close> and \<^verbatim>\<open>marcarAtendido\<close> calls, raises the
  PedidoException for an order already fulfilled and leaves the ledger, the flag and the
  rest of the order unchanged. (Only \<^verbatim>\<open>setAtendido(false)\<close>, which the program never
  calls, could clear the flag.)
\<close>

theorem Pedido_atendido_imutavel:
  assumes "Pedido.atendido p"
  shows "Pedido_executar p ops = p
     \<and> Pedido_adicionarItem (Pedido_executar p ops) i n q =
         (p, Inl (PedidoException PedidoAtendidoAdicionar))
     \<and> Pedido_removerItem (Pedido_executar p ops) j =
         (p, Inl (PedidoException PedidoAtendidoRemover))"
  using assms
  by (simp add: Pedido_executar_atendido Pedido_adicionarItem_def Pedido_removerItem_def)

theorem Pedido_atendido_imutavel_witness:
  "Pedido.atendido pedido_atendido
   \<and> Pedido_executar pedido_atendido [AdicionarLinha 3 ''Sabonete'' 1, RemoverLinha 1] =
       pedido_atendido
   \<and> Pedido_adicionarItem
         (Pedido_executar pedido_atendido [AdicionarLinha 3 ''Sabonete'' 1, RemoverLinha 1])
         3 ''Sabonete'' 1 =
       (pedido_atendido, Inl (PedidoException PedidoAtendidoAdicionar))
   \<and> Pedido_removerItem
         (Pedido_executar pedido_atendido [AdicionarLinha 3 ''Sabonete'' 1, RemoverLinha 1]) 1 =
       (pedido_atendido, Inl (PedidoException PedidoAtendidoRemover))"
proof -
  have a: "Pedido.atendido pedido_atendido"
    by (simp add: pedido_atendido_eq)
  from a Pedido_atendido_imutavel [OF a] show ?thesis by (rule conjI)
qed

subsection \<open>C8: marcarAtendido is idempotent\<close>

text \<open>
  C8: for every order, \<^verbatim>\<open>marcarAtendido\<close> called twice returns normally both times, the
  flag \<^verbatim>\<open>atendido\<close> is true after each call, and the second call changes nothing.
\<close>

theorem Pedido_marcarAtendido_idempotente:
  "snd (Pedido_marcarAtendido p) = Inr ()
   \<and> Pedido.atendido (fst (Pedido_marcarAtendido p))
   \<and> snd (Pedido_marcarAtendido (fst (Pedido_marcarAtendido p))) = Inr ()
   \<and> Pedido.atendido (fst (Pedido_marcarAtendido (fst (Pedido_marcarAtendido p))))
   \<and> fst (Pedido_marcarAtendido (fst (Pedido_marcarAtendido p))) =
       fst (Pedido_marcarAtendido p)"
  by (simp add: Pedido_marcarAtendido_def)

subsection \<open>C9: the catalog round trip\<close>

text \<open>
  C9: for every catalog, after \<^verbatim>\<open>cadastrar(name, price)\<close> has returned an id,
  \<^verbatim>\<open>buscarPorNome(name)\<close> returns the entry with that id, exactly that name and exactly
  that price; and after \<^verbatim>\<open>remover(id)\<close> has returned true, \<^verbatim>\<open>buscarPorId(id)\<close>
  returns the null pointer.
\<close>

theorem GerenciadorItens_ida_e_volta:
  "(GerenciadorItens_cadastrar neg g n p = (g', Inr k) \<longrightarrow>
      GerenciadorItens_buscarPorNome g' n = Some \<lparr>Item.id = k, nome = n, preco = p\<rparr>)
   \<and> (GerenciadorItens_remover h j = (h', True) \<longrightarrow> GerenciadorItens_buscarPorId h' j = None)"
proof (intro conjI impI)
  assume c: "GerenciadorItens_cadastrar neg g n p = (g', Inr k)"
  then have nf: "find (\<lambda>item. Item.nome item = n) (GerenciadorItens.itens g) = None"
    and g': "GerenciadorItens.itens g' =
               GerenciadorItens.itens g @ [\<lparr>Item.id = k, nome = n, preco = p\<rparr>]"
    by (auto simp: GerenciadorItens_cadastrar_def GerenciadorItens_buscarPorNome_def
        split: if_splits)
  show "GerenciadorItens_buscarPorNome g' n = Some \<lparr>Item.id = k, nome = n, preco = p\<rparr>"
    unfolding GerenciadorItens_buscarPorNome_def g'
    by (rule find_snoc_novo [OF nf]) simp
next
  assume r: "GerenciadorItens_remover h j = (h', True)"
  then have "GerenciadorItens.itens h' =
      filter (\<lambda>i. \<not> (Item.id i = j)) (GerenciadorItens.itens h)"
    by (auto simp: GerenciadorItens_remover_def Let_def split: if_splits)
  then show "GerenciadorItens_buscarPorId h' j = None"
    by (simp add: GerenciadorItens_buscarPorId_def find_filter_neg)
qed

theorem GerenciadorItens_ida_e_volta_witness:
  "GerenciadorItens_cadastrar exato_neg GerenciadorItens_novo ''Toalha'' (25 / 2) =
     (catalogo_exemplo, Inr 1)
   \<and> GerenciadorItens_buscarPorNome catalogo_exemplo ''Toalha'' =
       Some \<lparr>Item.id = 1, nome = ''Toalha'', preco = 25 / 2\<rparr>
   \<and> GerenciadorItens_remover catalogo_exemplo 1 =
       (\<lparr>GerenciadorItens.itens = [], proximoId = 2\<rparr>, True)
   \<and> GerenciadorItens_buscarPorId \<lparr>GerenciadorItens.itens = [], proximoId = (2::int)\<rparr> 1 =
       (None :: real Item option)"
  using GerenciadorItens_ida_e_volta
    [of exato_neg GerenciadorItens_novo "''Toalha''" "25 / 2" catalogo_exemplo 1
        catalogo_exemplo 1 "\<lparr>GerenciadorItens.itens = [], proximoId = 2\<rparr>"]
    catalogo_exemplo_cadastrar catalogo_exemplo_remover
  by simp

subsection \<open>C10: an upsert keeps the stored name (and the stored unit price)\<close>

text \<open>
  C10: in each of the four ledgers (stock, dressing room, order, shopping list), an
  upsert that returns normally for an itemId that already exists leaves the stored
  \<^verbatim>\<open>nomeItem\<close> as it was, whatever name the call passes; in the shopping list it also
  leaves the stored unit price as it was, whatever price the call passes.
\<close>

theorem upsert_conserva_nome_e_preco:
  "(Estoque.itens e i = Some r \<and> snd (Estoque_adicionarItem e i n q) = Inr () \<longrightarrow>
      map_option ItemEstoque.nomeItem (Estoque.itens (fst (Estoque_adicionarItem e i n q)) i) =
        Some (ItemEstoque.nomeItem r))
   \<and> (Camarim.itens c ic = Some rc \<and> snd (Camarim_inserirItem c ic nc qc) = Inr () \<longrightarrow>
      map_option ItemCamarim.nomeItem
        (Camarim.itens (fst (Camarim_inserirItem c ic nc qc)) ic) =
        Some (ItemCamarim.nomeItem rc))
   \<and> (Pedido.itens p ip = Some rp \<and> snd (Pedido_adicionarItem p ip np qp) = Inr () \<longrightarrow>
      map_option ItemPedido.nomeItem
        (Pedido.itens (fst (Pedido_adicionarItem p ip np qp)) ip) =
        Some (ItemPedido.nomeItem rp))
   \<and> (ListaCompras.itens l il = Some rl \<and>
       snd (ListaCompras_adicionarItem neg mul l il nl ql x) = Inr () \<longrightarrow>
      map_option ItemCompra.nomeItem
        (ListaCompras.itens (fst (ListaCompras_adicionarItem neg mul l il nl ql x)) il) =
        Some (ItemCompra.nomeItem rl) \<and>
      map_option ItemCompra.preco
        (ListaCompras.itens (fst (ListaCompras_adicionarItem neg mul l il nl ql x)) il) =
        Some (ItemCompra.preco rl))"
  by (auto simp: Estoque_adicionarItem_def Camarim_inserirItem_def Pedido_adicionarItem_def
      ListaCompras_adicionarItem_def split: if_splits)

theorem upsert_conserva_nome_e_preco_witness:
  "snd (Estoque_adicionarItem estoque_exemplo 1 ''Sabonete'' 2) = Inr ()
   \<and> map_option ItemEstoque.nomeItem
       (Estoque.itens (fst (Estoque_adicionarItem estoque_exemplo 1 ''Sabonete'' 2)) 1) =
       Some ''Toalha''
   \<and> snd (Camarim_inserirItem camarim_exemplo 1 ''Sabonete'' 2) = Inr ()
   \<and> map_option ItemCamarim.nomeItem
       (Camarim.itens (fst (Camarim_inserirItem camarim_exemplo 1 ''Sabonete'' 2)) 1) =
       Some ''Toalha''
   \<and> snd (Pedido_adicionarItem pedido_pendente 1 ''Sabonete'' 2) = Inr ()
   \<and> map_option ItemPedido.nomeItem
       (Pedido.itens (fst (Pedido_adicionarItem pedido_pendente 1 ''Sabonete'' 2)) 1) =
       Some ''Toalha''
   \<and> snd (ListaCompras_adicionarItem exato_neg exato_mul lista_semanal 1 ''Toalha'' 2 7) =
       Inr ()
   \<and> map_option ItemCompra.nomeItem
       (ListaCompras.itens
          (fst (ListaCompras_adicionarItem exato_neg exato_mul lista_semanal 1 ''Toalha'' 2 7))
          1) = Some ''Sabonete''
   \<and> map_option ItemCompra.preco
       (ListaCompras.itens
          (fst (ListaCompras_adicionarItem exato_neg exato_mul lista_semanal 1 ''Toalha'' 2 7))
          1) = Some 2"
proof -
  have e: "snd (Estoque_adicionarItem estoque_exemplo 1 ''Sabonete'' 2) = Inr ()"
    by (simp add: Estoque_adicionarItem_def estoque_exemplo_itens)
  have c: "snd (Camarim_inserirItem camarim_exemplo 1 ''Sabonete'' 2) = Inr ()"
    by (simp add: Camarim_inserirItem_def camarim_exemplo_itens)
  have p: "snd (Pedido_adicionarItem pedido_pendente 1 ''Sabonete'' 2) = Inr ()"
    by (simp add: Pedido_adicionarItem_def pedido_pendente_eq)
  have pi: "Pedido.itens pedido_pendente 1 =
      Some \<lparr>ItemPedido.itemId = 1, nomeItem = ''Toalha'', quantidade = 2\<rparr>"
    by (simp add: pedido_pendente_eq)
  have l: "snd (ListaCompras_adicionarItem exato_neg exato_mul lista_semanal 1 ''Toalha'' 2 7)
      = Inr ()"
    by (simp add: ListaCompras_adicionarItem_def lista_semanal_itens exato_neg_def)
  from upsert_conserva_nome_e_preco
    [where e = estoque_exemplo and i = 1 and n = "''Sabonete''" and q = 2
       and r = "\<lparr>ItemEstoque.itemId = 1, nomeItem = ''Toalha'', quantidade = 10\<rparr>"
       and c = camarim_exemplo and ic = 1 and nc = "''Sabonete''" and qc = 2
       and rc = "\<lparr>ItemCamarim.itemId = 1, nomeItem = ''Toalha'', quantidade = 5\<rparr>"
       and p = pedido_pendente and ip = 1 and np = "''Sabonete''" and qp = 2
       and rp = "\<lparr>ItemPedido.itemId = 1, nomeItem = ''Toalha'', quantidade = 2\<rparr>"
       and l = lista_semanal and il = 1 and nl = "''Toalha''" and ql = 2 and x = 7
       and neg = exato_neg and mul = exato_mul
       and rl = "\<lparr>ItemCompra.itemId = 1, nomeItem = ''Sabonete'', quantidade = 3, preco = 2,
                  subtotal = 6\<rparr>"]
    estoque_exemplo_itens camarim_exemplo_itens pi lista_semanal_itens e c p l
  show ?thesis by simp
qed

end
